theory Spec2Isabelle
  imports Main
begin

section \<open>Shared normalisation helpers of \<open>WebsiteParser\<close>\<close>

text \<open>
  The values the extractors hand to the helpers are decoded JSON values. Strings are
  sequences of code points below 256.
\<close>

datatype pyval =
    PyNone
  | PyBool bool
  | PyInt int
  | PyStr string
  | PyList "pyval list"
  | PyDict "(string \<times> pyval) list"

datatype py_error = AttributeError | OtherError

text \<open>Python's truth value of an object, as \<open>if url:\<close> reads it.\<close>

fun truthy :: "pyval \<Rightarrow> bool" where
  "truthy PyNone = False"
| "truthy (PyBool b) = b"
| "truthy (PyInt i) = (i \<noteq> 0)"
| "truthy (PyStr s) = (s \<noteq> [])"
| "truthy (PyList xs) = (xs \<noteq> [])"
| "truthy (PyDict kvs) = (kvs \<noteq> [])"

fun is_str :: "pyval \<Rightarrow> bool" where
  "is_str (PyStr s) = True"
| "is_str v = False"

text \<open>
  The characters \<open>str.strip()\<close> removes: those for which \<open>str.isspace\<close> holds, which
  below 256 are 9 to 13, 28 to 32, 133 and 160.
\<close>

definition py_isspace :: "char \<Rightarrow> bool" where
  "py_isspace c = ((of_char c :: nat) \<in> set [9, 10, 11, 12, 13, 28, 29, 30, 31, 32, 133, 160])"

definition strip :: "string \<Rightarrow> string" where
  "strip s = rev (dropWhile py_isspace (rev (dropWhile py_isspace s)))"

definition startswith :: "string \<Rightarrow> string \<Rightarrow> bool" where
  "startswith s p = (take (length p) s = p)"

text \<open>
  \<^verbatim>\<open>
  def format_url(self, url):
      if url:
          return url if url.startswith('http') else 'https:' + url
      return ""
  \<close>
  A truthy value that is not a string has no \<open>startswith\<close>: the call raises.
\<close>

definition format_url :: "pyval \<Rightarrow> py_error + pyval" where
  "format_url url =
     (if truthy url then
        (case url of
           PyStr s \<Rightarrow> Inr (PyStr (if startswith s ''http'' then s else ''https:'' @ s))
         | _ \<Rightarrow> Inl AttributeError)
      else Inr (PyStr ''''))"

text \<open>
  \<^verbatim>\<open>
  def safe_strip(self, value):
      return value.strip() if isinstance(value, str) else value
  \<close>
\<close>

definition safe_strip :: "pyval \<Rightarrow> pyval" where
  "safe_strip v = (case v of PyStr s \<Rightarrow> PyStr (strip s) | _ \<Rightarrow> v)"

section \<open>Brand configuration, requests and the catalogue source\<close>

text \<open>
  The settings of a brand, as \<open>run_parser\<close> reads them. A category is a string. A
  locale descriptor is the key-value map the parsers index (\<open>locale\<close>, written
  \<open>locale'\<close> here, \<open>country_code\<close>, \<open>site_id\<close>, \<open>limit\<close>, \<open>size\<close>, \<open>start\<close>); a
  plain-string entry \<open>s\<close> of \<open>Locales\<close> is the descriptor whose \<open>locale\<close> is \<open>s\<close>. The
  \<open>Categories\<close> of brand 26 are dicts of a category list and its URL template
  (\<open>Category_dicts\<close>). The settings are taken to be well-formed: every key a parser
  indexes is present, and the numeric ones are integers.
\<close>

type_synonym category = string

record locale_desc =
  locale' :: string
  country_code :: string
  site_id :: string
  limit :: int
  size :: int
  start :: int

record category_dict =
  category_list :: "category list"
  base_url :: string

record brand_settings =
  Categories :: "category list"
  Category_dicts :: "category_dict list"
  Locales :: "locale_desc list"
  Base_URL :: string

text \<open>
  A request is a URL template with the variables \<open>format\<close> substitutes into it.
\<close>

record request =
  rq_base_url :: string
  rq_category :: category
  rq_locale :: locale_desc
  rq_page :: int
  rq_limit :: int

text \<open>
  What one retrieval yields once decoded: \<open>Raises\<close> when the retrieval, the decoding of
  the payload or the extraction of a product row raises; otherwise the HTTP status, the
  total the payload declares (absent, not a number, or a number) and the rows extracted
  from its items, one per item. The source answers a request in the light of
  the requests made before it. The log of requests holds the calls of the fetcher
  (\<open>driver.get\<close>, \<open>session.get\<close>, \<open>requests.get\<close>), one entry a call; where a session
  retries a call, the attempts it makes are counted apart (see the retries below),
  and an attempt is answered in the light of the calls made before, followed by the
  earlier attempts of the same call.
\<close>

datatype total = NoTotal | BadTotal | Total int

datatype 'row response = Raises | Http nat total "'row list"

type_synonym 'row site = "request list \<Rightarrow> request \<Rightarrow> 'row response"

text \<open>
  The outcome of \<open>get_bearer_token\<close>: it raises, or returns \<open>None\<close> or a token. The page
  it loads in the browser to read the token from is not a request for the catalogue and
  is not in the log.
\<close>

datatype token_result = TokenRaises | TokenValue "string option"

type_synonym tokens = "request list \<Rightarrow> token_result"

text \<open>
  A loop over pages returns, beside the log of the requests made, the rows or the
  fact that an exception left it; a loop that never returns is \<open>None\<close>.
\<close>

type_synonym 'row fetched = "((py_error + 'row list) \<times> request list) option"

text \<open>
  \<open>driver.get\<close> followed by the decoding of the page (the browser shows no status);
  \<open>session.get\<close> followed by \<open>raise_for_status\<close> and \<open>response.json()\<close>. \<open>None\<close> is an
  exception.
\<close>

definition driver_get :: "'row site \<Rightarrow> request list \<Rightarrow> request \<Rightarrow> (total \<times> 'row list) option" where
  "driver_get site log rq =
     (case site log rq of Raises \<Rightarrow> None | Http s t items \<Rightarrow> Some (t, items))"

definition session_get :: "'row site \<Rightarrow> request list \<Rightarrow> request \<Rightarrow> (total \<times> 'row list) option" where
  "session_get site log rq =
     (case site log rq of
        Raises \<Rightarrow> None
      | Http s t items \<Rightarrow> if 400 \<le> s \<and> s < 600 then None else Some (t, items))"

text \<open>\<open>range(n)\<close> for an integer \<open>n\<close>.\<close>

definition py_range :: "int \<Rightarrow> int list" where
  "py_range n = map int [0..<nat n]"

text \<open>
  \<^verbatim>\<open>
  for page in range(total_pages):
      current_url = base_url.format(category=category, page=page, locale=locale)
      ... get, decode ...
      if not items:
          continue
      for product in items:
          all_products.append(product_info)
  \<close>
\<close>

fun for_pages ::
  "(request list \<Rightarrow> request \<Rightarrow> (total \<times> 'row list) option) \<Rightarrow> (int \<Rightarrow> request) \<Rightarrow>
   int list \<Rightarrow> 'row list \<Rightarrow> request list \<Rightarrow> (py_error + 'row list) \<times> request list" where
  "for_pages get rq [] all_products log = (Inr all_products, log)"
| "for_pages get rq (page # pages) all_products log =
     (case get log (rq page) of
        None \<Rightarrow> (Inl OtherError, log @ [rq page])
      | Some (t, items) \<Rightarrow> for_pages get rq pages (all_products @ items) (log @ [rq page]))"

text \<open>
  \<open>except Exception: return pd.DataFrame()\<close>: the handler around the body of
  \<open>fetch_data\<close> turns an exception into the empty frame.
\<close>

definition except_empty :: "(py_error + 'row list) \<times> request list \<Rightarrow> 'row fetched" where
  "except_empty r =
     (case r of (Inl e, log) \<Rightarrow> Some (Inr [], log) | (Inr all_products, log) \<Rightarrow> Some (Inr all_products, log))"

subsection \<open>Known page count: Gucci, Loro Piana, Alexander McQueen, Saint Laurent\<close>

definition page_request :: "string \<Rightarrow> category \<Rightarrow> locale_desc \<Rightarrow> int \<Rightarrow> request" where
  "page_request url c l page =
     \<lparr>rq_base_url = url, rq_category = c, rq_locale = l, rq_page = page, rq_limit = 0\<rparr>"

text \<open>\<open>GucciProductParser.fetch_data\<close>: \<open>total_pages = json_data.get('numberOfPages', 1)\<close>.\<close>

definition gucci_fetch_data ::
  "'row site \<Rightarrow> category \<Rightarrow> string \<Rightarrow> locale_desc \<Rightarrow> request list \<Rightarrow> 'row fetched" where
  "gucci_fetch_data site c url l log =
     (case driver_get site log (page_request url c l 0) of
        None \<Rightarrow> Some (Inr [], log @ [page_request url c l 0])
      | Some (t, items) \<Rightarrow>
          (case t of
             BadTotal \<Rightarrow> Some (Inr [], log @ [page_request url c l 0])
           | NoTotal \<Rightarrow>
               except_empty (for_pages (driver_get site) (page_request url c l) (py_range 1) []
                 (log @ [page_request url c l 0]))
           | Total total_pages \<Rightarrow>
               except_empty (for_pages (driver_get site) (page_request url c l) (py_range total_pages) []
                 (log @ [page_request url c l 0]))))"

text \<open>
  \<open>LoroPianaProductParser.fetch_data\<close>:
  \<open>total_pages = json_data.get('pagination', {}).get("numberOfPages", 0)\<close>.
\<close>

definition loro_piana_fetch_data ::
  "'row site \<Rightarrow> category \<Rightarrow> string \<Rightarrow> locale_desc \<Rightarrow> request list \<Rightarrow> 'row fetched" where
  "loro_piana_fetch_data site c url l log =
     (case session_get site log (page_request url c l 0) of
        None \<Rightarrow> Some (Inr [], log @ [page_request url c l 0])
      | Some (t, items) \<Rightarrow>
          (case t of
             BadTotal \<Rightarrow> Some (Inr [], log @ [page_request url c l 0])
           | NoTotal \<Rightarrow>
               except_empty (for_pages (session_get site) (page_request url c l) (py_range 0) []
                 (log @ [page_request url c l 0]))
           | Total total_pages \<Rightarrow>
               except_empty (for_pages (session_get site) (page_request url c l) (py_range total_pages) []
                 (log @ [page_request url c l 0]))))"

text \<open>
  \<open>SaintLaurentProductParser.fetch_data\<close>:
  \<open>total_pages = json_data.get('stats', {}).get('nbPages', 0)\<close>.

  A repair is made here. As shipped, line 627 of \<open>main.py\<close>, the statement of the loop
  that formats the URL of a page, is not Python: its last argument reads
  \<^verbatim>\<open>locale Robotic Process Automation (RPA)locale\<close>. The definition is of the function
  with that argument read as \<open>locale=locale\<close>, which is how line 618 of the same function
  formats its first request. It describes the function so repaired, not the file as
  shipped. No property below is evaluated through this definition at a concrete input;
  the properties stated for every parser do not depend on what a \<open>fetch_data\<close>
  returns.
\<close>

definition saint_laurent_fetch_data ::
  "'row site \<Rightarrow> category \<Rightarrow> string \<Rightarrow> locale_desc \<Rightarrow> request list \<Rightarrow> 'row fetched" where
  "saint_laurent_fetch_data site c url l log =
     (case session_get site log (page_request url c l 0) of
        None \<Rightarrow> Some (Inr [], log @ [page_request url c l 0])
      | Some (t, items) \<Rightarrow>
          (case t of
             BadTotal \<Rightarrow> Some (Inr [], log @ [page_request url c l 0])
           | NoTotal \<Rightarrow>
               except_empty (for_pages (session_get site) (page_request url c l) (py_range 0) []
                 (log @ [page_request url c l 0]))
           | Total total_pages \<Rightarrow>
               except_empty (for_pages (session_get site) (page_request url c l) (py_range total_pages) []
                 (log @ [page_request url c l 0]))))"

text \<open>
  \<open>AlexanderMcqueenParser.fetch_data\<close>: \<open>total_pages = json_data['stats']['nbPages'] + 1\<close>;
  a missing key raises.
\<close>

definition alexander_mcqueen_fetch_data ::
  "'row site \<Rightarrow> category \<Rightarrow> string \<Rightarrow> locale_desc \<Rightarrow> request list \<Rightarrow> 'row fetched" where
  "alexander_mcqueen_fetch_data site c url l log =
     (case session_get site log (page_request url c l 0) of
        None \<Rightarrow> Some (Inr [], log @ [page_request url c l 0])
      | Some (t, items) \<Rightarrow>
          (case t of
             BadTotal \<Rightarrow> Some (Inr [], log @ [page_request url c l 0])
           | NoTotal \<Rightarrow> Some (Inr [], log @ [page_request url c l 0])
           | Total nbPages \<Rightarrow>
               except_empty (for_pages (session_get site) (page_request url c l) (py_range (nbPages + 1)) []
                 (log @ [page_request url c l 0]))))"

subsection \<open>A listing page: Chloe, Canada Goose\<close>

text \<open>
  \<open>ChloeProductParser.fetch_data\<close> loads the listing of a category;
  \<open>get_product_info\<close> then goes through its articles, and for each of them
  \<open>extract_product_id\<close> loads the page of the article (\<open>self.driver.get(product_url)\<close>)
  to read the item code off it:
  \<^verbatim>\<open>
  for article in articles:
      ...
      product_id = self.extract_product_id(a_url, locale_TF)
      ...
      parsed_data.append(product_data)
  \<close>
  The request for the listing has \<open>rq_page = 0\<close>, and the one for the page of its
  \<open>k\<close>-th article (from 1) has \<open>rq_page = k\<close>. The answer to the latter holds the row
  of the article completed with the item code found on the page; when none is found
  (no body in time, no description) it holds no row, and the row is the article's
  own, its item code empty. An exception in \<open>driver.get\<close> is handled in \<open>fetch_data\<close>
  like any other. The articles are taken to carry their attribute
  \<open>data-ytos-track-product-data\<close>.
\<close>

definition chloe_request :: "string \<Rightarrow> category \<Rightarrow> locale_desc \<Rightarrow> int \<Rightarrow> request" where
  "chloe_request url c l k =
     \<lparr>rq_base_url = url, rq_category = c, rq_locale = l, rq_page = k, rq_limit = size l\<rparr>"

fun get_product_info ::
  "'row site \<Rightarrow> (int \<Rightarrow> request) \<Rightarrow> 'row list \<Rightarrow> int \<Rightarrow> 'row list \<Rightarrow> request list \<Rightarrow>
   (py_error + 'row list) \<times> request list" where
  "get_product_info site rq [] k parsed_data log = (Inr parsed_data, log)"
| "get_product_info site rq (article # articles) k parsed_data log =
     (case site log (rq k) of
        Raises \<Rightarrow> (Inl OtherError, log @ [rq k])
      | Http s t found \<Rightarrow>
          get_product_info site rq articles (k + 1)
            (parsed_data @ [case found of [] \<Rightarrow> article | product_data # others \<Rightarrow> product_data])
            (log @ [rq k]))"

definition chloe_fetch_data ::
  "'row site \<Rightarrow> category \<Rightarrow> string \<Rightarrow> locale_desc \<Rightarrow> request list \<Rightarrow> 'row fetched" where
  "chloe_fetch_data site c url l log =
     (case driver_get site log (chloe_request url c l 0) of
        None \<Rightarrow> Some (Inr [], log @ [chloe_request url c l 0])
      | Some (t, articles) \<Rightarrow>
          except_empty (get_product_info site (chloe_request url c l) articles 1 []
            (log @ [chloe_request url c l 0])))"

text \<open>
  \<open>CanadaGooseProductParser.fetch_data\<close> loads the listing and reads every product off
  its blocks; it loads no other page.
\<close>

definition canada_goose_fetch_data ::
  "'row site \<Rightarrow> category \<Rightarrow> string \<Rightarrow> locale_desc \<Rightarrow> request list \<Rightarrow> 'row fetched" where
  "canada_goose_fetch_data site c url l log =
     (case driver_get site log (page_request url c l 0) of
        None \<Rightarrow> Some (Inr [], log @ [page_request url c l 0])
      | Some (t, all_products) \<Rightarrow> Some (Inr all_products, log @ [page_request url c l 0]))"

subsection \<open>Offsets and running counts: Loewe, Stone Island, Moncler, Dolce \<open>&\<close> Gabbana\<close>

definition offset_request :: "string \<Rightarrow> category \<Rightarrow> locale_desc \<Rightarrow> int \<Rightarrow> int \<Rightarrow> request" where
  "offset_request url c l offset lim =
     \<lparr>rq_base_url = url, rq_category = c, rq_locale = l, rq_page = offset, rq_limit = lim\<rparr>"

text \<open>\<open>if not bearer_token\<close>: \<open>None\<close> and the empty string are falsy.\<close>

definition no_token :: "string option \<Rightarrow> bool" where
  "no_token bearer_token = (case bearer_token of None \<Rightarrow> True | Some tk \<Rightarrow> tk = [])"

text \<open>
  \<open>LoeweProductParser.fetch_data\<close>, the loop:
  \<^verbatim>\<open>
  while offset <= total_products:
      ... get, raise_for_status, decode ...
      items = json_data.get('hits', [])
      if not items:
          continue
      for product in items:
          all_products.append(product_info)
      offset += limit
  \<close>
\<close>

partial_function (option) loewe_pages ::
  "'row site \<Rightarrow> string \<Rightarrow> category \<Rightarrow> locale_desc \<Rightarrow> int \<Rightarrow> int \<Rightarrow> 'row list \<Rightarrow> request list \<Rightarrow>
   ((py_error + 'row list) \<times> request list) option" where
  "loewe_pages site url c cd total_products offset all_products log =
     (if offset \<le> total_products then
        (case session_get site log (offset_request url c cd offset (limit cd)) of
           None \<Rightarrow> Some (Inl OtherError, log @ [offset_request url c cd offset (limit cd)])
         | Some (t, items) \<Rightarrow>
             if items = [] then
               loewe_pages site url c cd total_products offset all_products
                 (log @ [offset_request url c cd offset (limit cd)])
             else
               loewe_pages site url c cd total_products (offset + limit cd) (all_products @ items)
                 (log @ [offset_request url c cd offset (limit cd)]))
      else Some (Inr all_products, log))"

text \<open>
  \<open>LoeweProductParser.fetch_data\<close>: the token is read before the \<open>try\<close>; the first
  request asks for two items at offset 0, and
  \<open>total_products = int(items[0].get('c_totalProducts', '')...) if items else 0\<close>.
\<close>

definition loewe_fetch_data ::
  "'row site \<Rightarrow> tokens \<Rightarrow> category \<Rightarrow> string \<Rightarrow> locale_desc \<Rightarrow> request list \<Rightarrow> 'row fetched" where
  "loewe_fetch_data site tokens c url cd log =
     (case tokens log of
        TokenRaises \<Rightarrow> Some (Inl OtherError, log)
      | TokenValue bearer_token \<Rightarrow>
          if no_token bearer_token then Some (Inr [], log)
          else
            (case session_get site log (offset_request url c cd 0 2) of
               None \<Rightarrow> Some (Inr [], log @ [offset_request url c cd 0 2])
             | Some (t, items) \<Rightarrow>
                 if items = [] then
                   Option.bind (loewe_pages site url c cd 0 0 [] (log @ [offset_request url c cd 0 2]))
                     except_empty
                 else
                   (case t of
                      Total total_products \<Rightarrow>
                        Option.bind
                          (loewe_pages site url c cd total_products 0 [] (log @ [offset_request url c cd 0 2]))
                          except_empty
                    | NoTotal \<Rightarrow> Some (Inr [], log @ [offset_request url c cd 0 2])
                    | BadTotal \<Rightarrow> Some (Inr [], log @ [offset_request url c cd 0 2]))))"

text \<open>
  \<open>StoneIslandProductParser.fetch_data\<close>, the loop:
  \<^verbatim>\<open>
  while start <= num_products:
      ... get, raise_for_status, decode ...
      products = json_data.get('data', {}).get('products', [])
      start += size
      for product in products:
          all_products.append(product_info)
  \<close>
  The loop variable \<open>start\<close> is \<open>pos\<close> here.
\<close>

partial_function (option) stone_island_pages ::
  "'row site \<Rightarrow> string \<Rightarrow> category \<Rightarrow> locale_desc \<Rightarrow> int \<Rightarrow> int \<Rightarrow> 'row list \<Rightarrow> request list \<Rightarrow>
   ((py_error + 'row list) \<times> request list) option" where
  "stone_island_pages site url c ld num_products pos all_products log =
     (if pos \<le> num_products then
        (case session_get site log (offset_request url c ld pos (size ld)) of
           None \<Rightarrow> Some (Inl OtherError, log @ [offset_request url c ld pos (size ld)])
         | Some (t, products) \<Rightarrow>
             stone_island_pages site url c ld num_products (pos + size ld) (all_products @ products)
               (log @ [offset_request url c ld pos (size ld)]))
      else Some (Inr all_products, log))"

text \<open>
  \<open>num_products = json_data.get('data', {}).get("count", "")\<close>: comparing \<open>start\<close> with
  the default \<open>""\<close> raises.
\<close>

definition stone_island_fetch_data ::
  "'row site \<Rightarrow> category \<Rightarrow> string \<Rightarrow> locale_desc \<Rightarrow> request list \<Rightarrow> 'row fetched" where
  "stone_island_fetch_data site c url ld log =
     (case session_get site log (offset_request url c ld (start ld) (size ld)) of
        None \<Rightarrow> Some (Inr [], log @ [offset_request url c ld (start ld) (size ld)])
      | Some (t, items) \<Rightarrow>
          (case t of
             Total num_products \<Rightarrow>
               Option.bind
                 (stone_island_pages site url c ld num_products (start ld) []
                    (log @ [offset_request url c ld (start ld) (size ld)]))
                 except_empty
           | NoTotal \<Rightarrow> Some (Inr [], log @ [offset_request url c ld (start ld) (size ld)])
           | BadTotal \<Rightarrow> Some (Inr [], log @ [offset_request url c ld (start ld) (size ld)])))"

text \<open>
  \<open>MonclerProductParser.fetch_moncler_products\<close>, the loop of one category. The URL has
  no offset variable; no exception is handled.
  \<^verbatim>\<open>
  while True:
      ... driver.get, json.loads ...
      products = data['data']['products']
      if not products:
          break
      for product in products:
          all_products.append(product_info)
      offset += len(products)
      total_count = data['data']['count']
      if offset >= total_count:
          break
  \<close>
\<close>

partial_function (option) moncler_pages ::
  "'row site \<Rightarrow> string \<Rightarrow> category \<Rightarrow> locale_desc \<Rightarrow> int \<Rightarrow> 'row list \<Rightarrow> request list \<Rightarrow>
   ((py_error + 'row list) \<times> request list) option" where
  "moncler_pages site url c cc offset all_products log =
     (case driver_get site log (page_request url c cc 0) of
        None \<Rightarrow> Some (Inl OtherError, log @ [page_request url c cc 0])
      | Some (t, products) \<Rightarrow>
          if products = [] then Some (Inr all_products, log @ [page_request url c cc 0])
          else
            (case t of
               Total total_count \<Rightarrow>
                 if offset + int (length products) \<ge> total_count then
                   Some (Inr (all_products @ products), log @ [page_request url c cc 0])
                 else
                   moncler_pages site url c cc (offset + int (length products)) (all_products @ products)
                     (log @ [page_request url c cc 0])
             | NoTotal \<Rightarrow> Some (Inl OtherError, log @ [page_request url c cc 0])
             | BadTotal \<Rightarrow> Some (Inl OtherError, log @ [page_request url c cc 0])))"

text \<open>
  \<open>DolceGabbanaProductParser.fetch_products\<close>, the loop. \<open>requests.get\<close> is called without
  a session, a retry adapter or an exception handler.
  \<^verbatim>\<open>
  while True:
      response = requests.get(formatted_url, headers=headers)
      if response.status_code != 200:
          break
      data = response.json()
      products = data.get('hits', [])
      if not products:
          break
      for product in products:
          all_products.append(product_info)
      offset += limit
      if offset >= data['total']:
          break
  \<close>
\<close>

partial_function (option) dolce_gabbana_pages ::
  "'row site \<Rightarrow> string \<Rightarrow> category \<Rightarrow> locale_desc \<Rightarrow> int \<Rightarrow> 'row list \<Rightarrow> request list \<Rightarrow>
   ((py_error + 'row list) \<times> request list) option" where
  "dolce_gabbana_pages site url c info_dict offset all_products log =
     (case site log (offset_request url c info_dict offset (limit info_dict)) of
        Raises \<Rightarrow> Some (Inl OtherError, log @ [offset_request url c info_dict offset (limit info_dict)])
      | Http s t products \<Rightarrow>
          if s \<noteq> 200 then
            Some (Inr all_products, log @ [offset_request url c info_dict offset (limit info_dict)])
          else if products = [] then
            Some (Inr all_products, log @ [offset_request url c info_dict offset (limit info_dict)])
          else
            (case t of
               Total tot \<Rightarrow>
                 if offset + limit info_dict \<ge> tot then
                   Some (Inr (all_products @ products),
                     log @ [offset_request url c info_dict offset (limit info_dict)])
                 else
                   dolce_gabbana_pages site url c info_dict (offset + limit info_dict)
                     (all_products @ products)
                     (log @ [offset_request url c info_dict offset (limit info_dict)])
             | NoTotal \<Rightarrow>
                 Some (Inl OtherError, log @ [offset_request url c info_dict offset (limit info_dict)])
             | BadTotal \<Rightarrow>
                 Some (Inl OtherError, log @ [offset_request url c info_dict offset (limit info_dict)])))"

definition dolce_gabbana_fetch_products ::
  "'row site \<Rightarrow> tokens \<Rightarrow> string \<Rightarrow> category \<Rightarrow> locale_desc \<Rightarrow> request list \<Rightarrow> 'row fetched" where
  "dolce_gabbana_fetch_products site tokens url c info_dict log =
     (case tokens log of
        TokenRaises \<Rightarrow> Some (Inl OtherError, log)
      | TokenValue bearer_token \<Rightarrow>
          if no_token bearer_token then Some (Inr [], log)
          else dolce_gabbana_pages site url c info_dict 0 [] log)"

section \<open>The retries of a session\<close>

text \<open>
  The Loro Piana, Alexander McQueen, Saint Laurent, Loewe and Stone Island parsers build,
  in \<open>fetch_data\<close>, a session and mount a \<open>Retry\<close> on it:
  \<^verbatim>\<open>
  retries = Retry(total=5, backoff_factor=1, status_forcelist=[429, 500, 502, 503, 504],
                  allowed_methods=["HEAD", "GET", "OPTIONS"])
  session.mount("https://", HTTPAdapter(max_retries=retries))
  \<close>
  Alexander McQueen passes no \<open>allowed_methods\<close>. The \<open>backoff_factor\<close> spaces the
  attempts in time and is left out. The Gucci, Moncler, Chloe and Canada Goose parsers
  drive a browser, and the Dolce \<open>&\<close> Gabbana parser calls \<open>requests.get\<close>: they mount
  no \<open>Retry\<close>. The static method \<open>open_link\<close> mounts one too, but no parser calls it.
\<close>

record retry =
  retry_total :: nat
  status_forcelist :: "nat list"
  allowed_methods :: "string list option"

definition loro_piana_retries :: retry where
  "loro_piana_retries =
     \<lparr>retry_total = 5, status_forcelist = [429, 500, 502, 503, 504],
      allowed_methods = Some [''HEAD'', ''GET'', ''OPTIONS'']\<rparr>"

definition alexander_mcqueen_retries :: retry where
  "alexander_mcqueen_retries =
     \<lparr>retry_total = 5, status_forcelist = [429, 500, 502, 503, 504], allowed_methods = None\<rparr>"

definition saint_laurent_retries :: retry where
  "saint_laurent_retries =
     \<lparr>retry_total = 5, status_forcelist = [429, 500, 502, 503, 504],
      allowed_methods = Some [''HEAD'', ''GET'', ''OPTIONS'']\<rparr>"

definition loewe_retries :: retry where
  "loewe_retries =
     \<lparr>retry_total = 5, status_forcelist = [429, 500, 502, 503, 504],
      allowed_methods = Some [''HEAD'', ''GET'', ''OPTIONS'']\<rparr>"

definition stone_island_retries :: retry where
  "stone_island_retries =
     \<lparr>retry_total = 5, status_forcelist = [429, 500, 502, 503, 504],
      allowed_methods = Some [''HEAD'', ''GET'', ''OPTIONS'']\<rparr>"

text \<open>
  What the adapter does with a \<open>Retry\<close> is the library's, not the repository's. It is
  modelled from the documentation of \<open>urllib3.util.retry.Retry\<close>: \<open>total\<close> is the number
  of retries allowed, so that a call makes at most \<open>total + 1\<close> attempts; a response is
  retried when its status is in \<open>status_forcelist\<close> and the method of the request is among
  \<open>allowed_methods\<close>, which default to DELETE, GET, HEAD, OPTIONS, PUT and TRACE; when
  such a response comes and no retry is left, the call raises. Every fetch of a parser
  is a GET. An answer \<open>Raises\<close> is an exception that reaches the caller and is not
  retried here: the retries of a failing transport are not modelled.
\<close>

definition method_allowed :: "retry \<Rightarrow> string \<Rightarrow> bool" where
  "method_allowed r m =
     (case allowed_methods r of
        None \<Rightarrow> m \<in> set [''DELETE'', ''GET'', ''HEAD'', ''OPTIONS'', ''PUT'', ''TRACE'']
      | Some ms \<Rightarrow> m \<in> set ms)"

definition retried :: "retry \<Rightarrow> 'row response \<Rightarrow> bool" where
  "retried r answer =
     (case answer of
        Raises \<Rightarrow> False
      | Http s t items \<Rightarrow> s \<in> set (status_forcelist r) \<and> method_allowed r ''GET'')"

text \<open>
  The attempts of one call, \<open>left\<close> retries being left and \<open>made\<close> attempts made: the
  answer the call ends with, and the number of attempts made in all.
\<close>

fun attempts ::
  "retry \<Rightarrow> 'row site \<Rightarrow> request list \<Rightarrow> request \<Rightarrow> nat \<Rightarrow> nat \<Rightarrow> 'row response \<times> nat" where
  "attempts r server log rq 0 made =
     (if retried r (server (log @ replicate made rq) rq) then (Raises, Suc made)
      else (server (log @ replicate made rq) rq, Suc made))"
| "attempts r server log rq (Suc left) made =
     (if retried r (server (log @ replicate made rq) rq) then attempts r server log rq left (Suc made)
      else (server (log @ replicate made rq) rq, Suc made))"

text \<open>
  The source as a session with the \<open>Retry\<close> mounted sees it: the answer of a call is the
  one its attempts end with.
\<close>

definition retrying :: "retry \<Rightarrow> 'row site \<Rightarrow> 'row site" where
  "retrying r server = (\<lambda>log rq. fst (attempts r server log rq (retry_total r) 0))"


section \<open>The loops of \<open>process_categories\<close>\<close>

text \<open>
  \<^verbatim>\<open>
  for category in categories:
      category_data = self.fetch_data(category, ...)
      self.data = pd.concat([self.data, category_data], ignore_index=True)
  \<close>
  An exception that \<open>fetch_data\<close> does not handle leaves the loop, and so does a call
  that never returns.
\<close>

fun for_categories ::
  "('c \<Rightarrow> request list \<Rightarrow> 'row fetched) \<Rightarrow> 'c list \<Rightarrow> 'row list \<Rightarrow> request list \<Rightarrow> 'row fetched" where
  "for_categories fetch [] df log = Some (Inr df, log)"
| "for_categories fetch (c # cs) df log =
     (case fetch c log of
        None \<Rightarrow> None
      | Some (Inl ex, log') \<Rightarrow> Some (Inl ex, log')
      | Some (Inr category_data, log') \<Rightarrow> for_categories fetch cs (df @ category_data) log')"

text \<open>
  The loop over the locales around it. \<open>fresh\<close> says whether the body begins with
  \<open>self.data = pd.DataFrame()\<close>.
\<close>

fun for_locales ::
  "bool \<Rightarrow> ('l \<Rightarrow> 'c \<Rightarrow> request list \<Rightarrow> 'row fetched) \<Rightarrow> 'c list \<Rightarrow> 'l list \<Rightarrow> 'row list \<Rightarrow>
   request list \<Rightarrow> 'row fetched" where
  "for_locales fresh fetch cs [] df log = Some (Inr df, log)"
| "for_locales fresh fetch cs (l # ls) df log =
     (case for_categories (fetch l) cs (if fresh then [] else df) log of
        None \<Rightarrow> None
      | Some (Inl ex, log') \<Rightarrow> Some (Inl ex, log')
      | Some (Inr df', log') \<Rightarrow> for_locales fresh fetch cs ls df' log')"

section \<open>The output publisher\<close>

record website_parser =
  job_id :: string
  brand :: string
  code :: string
  log_file_name :: string
  output_filename :: "string option"
  upload_url :: "string option"
  count :: int
  log_url :: "string option"

record notification =
  n_job_id :: string
  n_resultUrl :: string
  n_logUrl :: string
  n_count :: int

text \<open>
  What a job leaves behind: the requests made, the files written with \<open>to_csv\<close> (name
  and rows), the files handed to the upload, the completion notifications posted, and
  whether an exception left \<open>run_parser\<close>.
\<close>

record 'row outcome =
  fetches :: "request list"
  written :: "(string \<times> 'row list) list"
  uploads :: "string list"
  notifications :: "notification list"
  uncaught :: bool

text \<open>
  The surroundings of a job: what the object store does with an upload, the fresh
  \<open>uuid4\<close> and the date in the two formats used.
\<close>

datatype s3_result = ClientFailed | UploadFailed | Uploaded

record env =
  s3 :: "string \<Rightarrow> s3_result"
  uuid :: string
  date_dmY :: string
  date_mdY :: string

definition init_parser :: "env \<Rightarrow> string \<Rightarrow> string \<Rightarrow> website_parser" where
  "init_parser e jid b =
     \<lparr>job_id = jid, brand = b, code = uuid e,
      log_file_name = b @ ''_'' @ uuid e @ ''_'' @ date_dmY e @ ''.log'',
      output_filename = None, upload_url = None, count = 0, log_url = None\<rparr>"

text \<open>
  \<open>upload_file_to_space\<close> (always called with \<open>is_public=True\<close>): \<open>None\<close> when the
  client cannot be created or the upload raises, the public URL otherwise.
\<close>

definition upload_file_to_space :: "env \<Rightarrow> string \<Rightarrow> string option" where
  "upload_file_to_space e save_as =
     (case s3 e save_as of
        ClientFailed \<Rightarrow> None
      | UploadFailed \<Rightarrow> None
      | Uploaded \<Rightarrow> Some (''https://archive.iconluxurygroup.s3.us-east-2.amazonaws.com/'' @ save_as))"

text \<open>\<open>str(x)\<close> of a value that is \<open>None\<close> or a string.\<close>

definition py_str :: "string option \<Rightarrow> string" where
  "py_str x = (case x of None \<Rightarrow> ''None'' | Some u \<Rightarrow> u)"

text \<open>
  \<open>send_output\<close>: upload the log, build the parameters, remove the local files
  (errors handled), post the notification (a \<open>RequestException\<close> handled).
\<close>

definition send_output :: "env \<Rightarrow> website_parser \<Rightarrow> 'row outcome \<Rightarrow> 'row outcome" where
  "send_output e self out =
     (let self' = self\<lparr>log_url := upload_file_to_space e (log_file_name self)\<rparr>;
          params = \<lparr>n_job_id = job_id self', n_resultUrl = py_str (upload_url self'),
                    n_logUrl = py_str (log_url self'), n_count = count self'\<rparr>
      in out\<lparr>uploads := uploads out @ [log_file_name self'],
               notifications := notifications out @ [params]\<rparr>)"

text \<open>
  The end of every \<open>process_categories\<close>, for the frame \<open>df\<close> it serialises:
  \<^verbatim>\<open>
  self.output_filename = f"{self.brand}_output_{current_date}_{self.code}.csv"
  df.to_csv(self.output_filename, sep=',', index=False, quoting=csv.QUOTE_ALL)
  self.upload_url = self.upload_file_to_space(self.output_filename, self.output_filename)
  self.count = len(df) - 1
  self.send_output()
  \<close>
\<close>

definition publish :: "env \<Rightarrow> website_parser \<Rightarrow> 'row list \<Rightarrow> request list \<Rightarrow> 'row outcome" where
  "publish e self df log =
     (let name = brand self @ ''_output_'' @ date_mdY e @ ''_'' @ code self @ ''.csv'';
          self1 = self\<lparr>output_filename := Some name\<rparr>;
          self2 = self1\<lparr>upload_url := upload_file_to_space e name\<rparr>;
          self3 = self2\<lparr>count := int (length df) - 1\<rparr>
      in send_output e self3
           \<lparr>fetches = log, written = [(name, df)], uploads = [name], notifications = [],
            uncaught = False\<rparr>)"

text \<open>The job when an exception leaves \<open>process_categories\<close>: nothing is published.\<close>

definition aborted :: "request list \<Rightarrow> 'row outcome" where
  "aborted log = \<lparr>fetches = log, written = [], uploads = [], notifications = [], uncaught = True\<rparr>"

definition finish :: "env \<Rightarrow> website_parser \<Rightarrow> 'row fetched \<Rightarrow> 'row outcome option" where
  "finish e self r =
     (case r of
        None \<Rightarrow> None
      | Some (Inl ex, log) \<Rightarrow> Some (aborted log)
      | Some (Inr df, log) \<Rightarrow> Some (publish e self df log))"

section \<open>\<open>process_categories\<close> of each brand\<close>

text \<open>
  \<open>self.data\<close> is the empty frame when \<open>process_categories\<close> begins. Gucci,
  Alexander McQueen, Loewe, Stone Island, Chloe and Canada Goose reset it at each
  locale; Saint Laurent and Loro Piana do not; all serialise \<open>self.data\<close>. Where
  \<open>fetch_data\<close> mounts a \<open>Retry\<close> on its session, it is given the source as that
  session sees it.
\<close>

definition gucci_process_categories ::
  "env \<Rightarrow> 'row site \<Rightarrow> website_parser \<Rightarrow> string \<Rightarrow> category list \<Rightarrow> locale_desc list \<Rightarrow> 'row outcome option" where
  "gucci_process_categories e site self url categories locales =
     finish e self (for_locales True (\<lambda>l c. gucci_fetch_data site c url l) categories locales [] [])"

definition saint_laurent_process_categories ::
  "env \<Rightarrow> 'row site \<Rightarrow> website_parser \<Rightarrow> string \<Rightarrow> category list \<Rightarrow> locale_desc list \<Rightarrow> 'row outcome option" where
  "saint_laurent_process_categories e site self url categories locales =
     finish e self
       (for_locales False
          (\<lambda>l c. saint_laurent_fetch_data (retrying saint_laurent_retries site) c url l)
          categories locales [] [])"

definition loro_piana_process_categories ::
  "env \<Rightarrow> 'row site \<Rightarrow> website_parser \<Rightarrow> string \<Rightarrow> category list \<Rightarrow> locale_desc list \<Rightarrow> 'row outcome option" where
  "loro_piana_process_categories e site self url categories country_dicts =
     finish e self
       (for_locales False
          (\<lambda>l c. loro_piana_fetch_data (retrying loro_piana_retries site) c url l)
          categories country_dicts [] [])"

text \<open>
  Alexander McQueen: inside each locale, each category dict sets the URL template for
  the categories of its list.
\<close>

definition alexander_mcqueen_process_categories ::
  "env \<Rightarrow> 'row site \<Rightarrow> website_parser \<Rightarrow> category_dict list \<Rightarrow> locale_desc list \<Rightarrow> 'row outcome option" where
  "alexander_mcqueen_process_categories e site self category_dicts locales =
     finish e self
       (for_locales True
          (\<lambda>l (url, c). alexander_mcqueen_fetch_data (retrying alexander_mcqueen_retries site) c url l)
          (concat (map (\<lambda>d. map (\<lambda>c. (base_url d, c)) (category_list d)) category_dicts))
          locales [] [])"

definition loewe_process_categories ::
  "env \<Rightarrow> 'row site \<Rightarrow> tokens \<Rightarrow> website_parser \<Rightarrow> string \<Rightarrow> category list \<Rightarrow> locale_desc list \<Rightarrow>
   'row outcome option" where
  "loewe_process_categories e site tokens self url categories country_dicts =
     finish e self
       (for_locales True
          (\<lambda>cd c. loewe_fetch_data (retrying loewe_retries site) tokens c url cd)
          categories country_dicts [] [])"

definition stone_island_process_categories ::
  "env \<Rightarrow> 'row site \<Rightarrow> website_parser \<Rightarrow> string \<Rightarrow> category list \<Rightarrow> locale_desc list \<Rightarrow> 'row outcome option" where
  "stone_island_process_categories e site self url categories locale_dicts =
     finish e self
       (for_locales True
          (\<lambda>ld c. stone_island_fetch_data (retrying stone_island_retries site) c url ld)
          categories locale_dicts [] [])"

definition chloe_process_categories ::
  "env \<Rightarrow> 'row site \<Rightarrow> website_parser \<Rightarrow> string \<Rightarrow> category list \<Rightarrow> locale_desc list \<Rightarrow> 'row outcome option" where
  "chloe_process_categories e site self url categories locale_dicts =
     finish e self
       (for_locales True (\<lambda>ld c. chloe_fetch_data site c url ld) categories locale_dicts [] [])"

definition canada_goose_process_categories ::
  "env \<Rightarrow> 'row site \<Rightarrow> website_parser \<Rightarrow> string \<Rightarrow> category list \<Rightarrow> locale_desc list \<Rightarrow> 'row outcome option" where
  "canada_goose_process_categories e site self url categories locales =
     finish e self
       (for_locales True (\<lambda>l c. canada_goose_fetch_data site c url l) categories locales [] [])"

text \<open>
  Moncler: \<open>fetch_moncler_products\<close> gathers the rows of all categories of one country;
  \<open>process_categories\<close> appends them to the local \<open>all_data\<close>, which it serialises.
\<close>

definition fetch_moncler_products ::
  "'row site \<Rightarrow> string \<Rightarrow> category list \<Rightarrow> locale_desc \<Rightarrow> request list \<Rightarrow> 'row fetched" where
  "fetch_moncler_products site url categories cc log =
     for_categories (\<lambda>c. moncler_pages site url c cc 0 []) categories [] log"

definition moncler_process_categories ::
  "env \<Rightarrow> 'row site \<Rightarrow> website_parser \<Rightarrow> string \<Rightarrow> category list \<Rightarrow> locale_desc list \<Rightarrow> 'row outcome option" where
  "moncler_process_categories e site self url categories country_codes =
     finish e self (for_categories (fetch_moncler_products site url categories) country_codes [] [])"

text \<open>
  Dolce \<open>&\<close> Gabbana:
  \<^verbatim>\<open>
  all_data = pd.DataFrame()
  for info_dict in info_dicts:
      self.data = pd.DataFrame()
      if categories:
          for category in categories:
              category_data = self.fetch_products(category, info_dict)
              all_data = pd.concat([all_data, category_data], ignore_index=True)
      else:
          category_data = self.fetch_products("", info_dict)
          all_data = pd.concat([all_data, category_data], ignore_index=True)
  ...
  self.data.to_csv(self.output_filename, ...)
  self.count = len(self.data) - 1
  \<close>
  The loop returns both frames, \<open>all_data\<close> and \<open>self.data\<close>.
\<close>

fun dolce_gabbana_info_dicts ::
  "(locale_desc \<Rightarrow> category \<Rightarrow> request list \<Rightarrow> 'row fetched) \<Rightarrow> category list \<Rightarrow> locale_desc list \<Rightarrow>
   'row list \<Rightarrow> 'row list \<Rightarrow> request list \<Rightarrow> ((py_error + 'row list \<times> 'row list) \<times> request list) option" where
  "dolce_gabbana_info_dicts fetch categories [] all_data self_data log =
     Some (Inr (all_data, self_data), log)"
| "dolce_gabbana_info_dicts fetch categories (info_dict # info_dicts) all_data self_data log =
     (case (if categories \<noteq> [] then for_categories (fetch info_dict) categories all_data log
            else for_categories (fetch info_dict) [''''] all_data log) of
        None \<Rightarrow> None
      | Some (Inl ex, log') \<Rightarrow> Some (Inl ex, log')
      | Some (Inr all_data', log') \<Rightarrow>
          dolce_gabbana_info_dicts fetch categories info_dicts all_data' [] log')"

definition dolce_gabbana_process_categories ::
  "env \<Rightarrow> 'row site \<Rightarrow> tokens \<Rightarrow> website_parser \<Rightarrow> string \<Rightarrow> category list \<Rightarrow> locale_desc list \<Rightarrow>
   'row outcome option" where
  "dolce_gabbana_process_categories e site tokens self url categories info_dicts =
     (case dolce_gabbana_info_dicts (\<lambda>i c. dolce_gabbana_fetch_products site tokens url c i)
             categories info_dicts [] [] [] of
        None \<Rightarrow> None
      | Some (Inl ex, log) \<Rightarrow> Some (aborted log)
      | Some (Inr (all_data, self_data), log) \<Rightarrow> Some (publish e self self_data log))"

section \<open>\<open>run_parser\<close>\<close>

datatype parser_class =
    SaintLaurentProductParser
  | GucciProductParser
  | AlexanderMcqueenParser
  | MonclerProductParser
  | LoroPianaProductParser
  | LoeweProductParser
  | DolceGabbanaProductParser
  | StoneIslandProductParser
  | ChloeProductParser
  | CanadaGooseProductParser

definition parsers :: "string \<Rightarrow> parser_class option" where
  "parsers = map_of
     [(''478'', SaintLaurentProductParser),
      (''229'', GucciProductParser),
      (''26'', AlexanderMcqueenParser),
      (''363'', MonclerProductParser),
      (''314'', LoroPianaProductParser),
      (''310'', LoeweProductParser),
      (''157'', DolceGabbanaProductParser),
      (''500'', StoneIslandProductParser),
      (''125'', ChloeProductParser),
      (''110'', CanadaGooseProductParser)]"

text \<open>The parser object of a class and its \<open>process_categories\<close>.\<close>

fun process_categories ::
  "parser_class \<Rightarrow> env \<Rightarrow> 'row site \<Rightarrow> tokens \<Rightarrow> string \<Rightarrow> brand_settings \<Rightarrow> 'row outcome option" where
  "process_categories SaintLaurentProductParser e site tokens jid bs =
     saint_laurent_process_categories e site (init_parser e jid ''saint_laurent'')
       (Base_URL bs) (Categories bs) (Locales bs)"
| "process_categories GucciProductParser e site tokens jid bs =
     gucci_process_categories e site (init_parser e jid ''gucci'')
       (Base_URL bs) (Categories bs) (Locales bs)"
| "process_categories AlexanderMcqueenParser e site tokens jid bs =
     alexander_mcqueen_process_categories e site (init_parser e jid ''alexander_mcqueen'')
       (Category_dicts bs) (Locales bs)"
| "process_categories MonclerProductParser e site tokens jid bs =
     moncler_process_categories e site (init_parser e jid ''moncler'')
       (Base_URL bs) (Categories bs) (Locales bs)"
| "process_categories LoroPianaProductParser e site tokens jid bs =
     loro_piana_process_categories e site (init_parser e jid ''loro_piana'')
       (Base_URL bs) (Categories bs) (Locales bs)"
| "process_categories LoeweProductParser e site tokens jid bs =
     loewe_process_categories e site tokens (init_parser e jid ''loewe'')
       (Base_URL bs) (Categories bs) (Locales bs)"
| "process_categories DolceGabbanaProductParser e site tokens jid bs =
     dolce_gabbana_process_categories e site tokens (init_parser e jid ''dolce_gabbana'')
       (Base_URL bs) (Categories bs) (Locales bs)"
| "process_categories StoneIslandProductParser e site tokens jid bs =
     stone_island_process_categories e site (init_parser e jid ''stone_island'')
       (Base_URL bs) (Categories bs) (Locales bs)"
| "process_categories ChloeProductParser e site tokens jid bs =
     chloe_process_categories e site (init_parser e jid ''chloe'')
       (Base_URL bs) (Categories bs) (Locales bs)"
| "process_categories CanadaGooseProductParser e site tokens jid bs =
     canada_goose_process_categories e site (init_parser e jid ''canada_goose'')
       (Base_URL bs) (Categories bs) (Locales bs)"

definition no_effects :: "'row outcome" where
  "no_effects = \<lparr>fetches = [], written = [], uploads = [], notifications = [], uncaught = False\<rparr>"

text \<open>
  \<^verbatim>\<open>
  settings = fetch_settings()
  if not settings or brand_id not in settings:
      return
  ...
  if brand_id in parsers:
      parser = parser_class(job_id, base_url)
      parser.process_categories(categories, locales)
  else:
      logging.error(...)
  \<close>
  \<open>fetch_settings\<close> returns \<open>None\<close> or the decoded settings.
\<close>

definition run_parser ::
  "env \<Rightarrow> 'row site \<Rightarrow> tokens \<Rightarrow> (string \<rightharpoonup> brand_settings) option \<Rightarrow> string \<Rightarrow> string \<Rightarrow>
   'row outcome option" where
  "run_parser e site tokens settings jid brand_id =
     (case settings of
        None \<Rightarrow> Some no_effects
      | Some st \<Rightarrow>
          (case st brand_id of
             None \<Rightarrow> Some no_effects
           | Some brand_settings \<Rightarrow>
               (case parsers brand_id of
                  Some parser_class \<Rightarrow> process_categories parser_class e site tokens jid brand_settings
                | None \<Rightarrow> Some no_effects)))"

section \<open>Example jobs\<close>

definition example_env :: env where
  "example_env =
     \<lparr>s3 = (\<lambda>name. Uploaded), uuid = ''u1'', date_dmY = ''04_11_2026'', date_mdY = ''11_04_2026''\<rparr>"

definition offline_env :: env where
  "offline_env =
     \<lparr>s3 = (\<lambda>name. UploadFailed), uuid = ''u1'', date_dmY = ''04_11_2026'',
      date_mdY = ''11_04_2026''\<rparr>"

definition en_US :: locale_desc where
  "en_US =
     \<lparr>locale' = ''en-US'', country_code = ''us'', site_id = ''s1'', limit = 2, size = 2, start = 0\<rparr>"

definition it_IT :: locale_desc where
  "it_IT =
     \<lparr>locale' = ''it-IT'', country_code = ''it'', site_id = ''s1'', limit = 2, size = 2, start = 0\<rparr>"

definition bags_settings :: brand_settings where
  "bags_settings =
     \<lparr>Categories = [''bags''], Category_dicts = [], Locales = [en_US], Base_URL = ''https://b.test''\<rparr>"

text \<open>A source of two pages of three items each, the rows being numbers.\<close>

definition two_pages_site :: "int site" where
  "two_pages_site =
     (\<lambda>log rq. Http 200 (Total 2) [3 * rq_page rq, 3 * rq_page rq + 1, 3 * rq_page rq + 2])"

definition some_token :: tokens where
  "some_token = (\<lambda>log. TokenValue (Some ''tk''))"

text \<open>A source whose one page holds one row, 1 for the locale \<open>en-US\<close> and 2 otherwise.\<close>

definition locale_site :: "int site" where
  "locale_site =
     (\<lambda>log rq. Http 200 (Total 1) [if locale' (rq_locale rq) = ''en-US'' then 1 else 2])"

text \<open>A source whose answer for the category \<open>bags\<close> cannot be decoded.\<close>

definition broken_bags_site :: "int site" where
  "broken_bags_site =
     (\<lambda>log rq. if rq_category rq = ''bags'' then Raises else Http 200 (Total 1) [7])"

definition two_locales_settings :: brand_settings where
  "two_locales_settings =
     \<lparr>Categories = [''bags''], Category_dicts = [], Locales = [en_US, it_IT],
      Base_URL = ''https://b.test''\<rparr>"

definition two_categories_settings :: brand_settings where
  "two_categories_settings =
     \<lparr>Categories = [''bags'', ''shoes''], Category_dicts = [], Locales = [en_US],
      Base_URL = ''https://b.test''\<rparr>"

text \<open>A source that never has an item, one that declares a total of zero, and one that
  answers 503 to the first four requests and 200 afterwards.\<close>

definition empty_site :: "int site" where
  "empty_site = (\<lambda>log rq. Http 200 NoTotal [])"

definition zero_total_site :: "int site" where
  "zero_total_site = (\<lambda>log rq. Http 200 (Total 0) [])"





section \<open>Properties of the normalisation helpers\<close>

lemma strip_decompose:
  "\<exists>pre suf. s = pre @ strip s @ suf \<and> (\<forall>c \<in> set pre. py_isspace c) \<and> (\<forall>c \<in> set suf. py_isspace c)"
proof -
  let ?t = "dropWhile py_isspace s"
  let ?pre = "takeWhile py_isspace s"
  let ?suf = "rev (takeWhile py_isspace (rev ?t))"
  have a: "s = ?pre @ ?t" by simp
  have "strip s @ ?suf = rev (takeWhile py_isspace (rev ?t) @ dropWhile py_isspace (rev ?t))"
    by (simp only: strip_def rev_append)
  also have "\<dots> = ?t" by (simp only: takeWhile_dropWhile_id rev_rev_ident)
  finally have b: "?t = strip s @ ?suf" by simp
  have c: "\<forall>c \<in> set ?pre. py_isspace c" by (auto dest: set_takeWhileD)
  have d: "\<forall>c \<in> set ?suf. py_isspace c" by (auto dest: set_takeWhileD)
  from a b have "s = ?pre @ strip s @ ?suf" by simp
  with c d show ?thesis by blast
qed

lemma strip_no_leading: "strip s \<noteq> [] \<Longrightarrow> \<not> py_isspace (hd (strip s))"
proof -
  assume ne: "strip s \<noteq> []"
  let ?t = "dropWhile py_isspace s"
  let ?u = "dropWhile py_isspace (rev ?t)"
  have u: "?u \<noteq> []" using ne by (simp add: strip_def)
  then have lastu: "last ?u = last (rev ?t)"
    by (metis takeWhile_dropWhile_id last_appendR)
  have tne: "?t \<noteq> []"
  proof
    assume "?t = []"
    then have "?u = []" by (simp only: rev.simps dropWhile.simps)
    with u show False by simp
  qed
  have "hd (strip s) = last ?u" using u by (simp add: strip_def hd_rev)
  also have "\<dots> = hd ?t" using lastu tne by (simp add: last_rev)
  finally show ?thesis using tne by (simp add: hd_dropWhile)
qed

lemma strip_no_trailing: "strip s \<noteq> [] \<Longrightarrow> \<not> py_isspace (last (strip s))"
proof -
  assume ne: "strip s \<noteq> []"
  let ?u = "dropWhile py_isspace (rev (dropWhile py_isspace s))"
  have u: "?u \<noteq> []" using ne by (simp add: strip_def)
  have "last (strip s) = hd ?u" using u by (simp add: strip_def last_rev)
  then show ?thesis using u by (simp add: hd_dropWhile)
qed

text \<open>
  Claim C8. \<open>safe_strip\<close> strips leading and trailing whitespace from a string (the
  result is the input without a prefix and a suffix of whitespace, and neither begins
  nor ends with whitespace) and returns any other value unchanged. \<open>format_url\<close> maps a
  URL starting with \<open>//\<close> to that URL prefixed with \<open>https:\<close>, leaves a URL starting
  with \<open>http\<close> unchanged, and maps a falsy input to the empty string.
\<close>

theorem normalization_helpers:
  "(\<exists>t pre suf. safe_strip (PyStr s) = PyStr t \<and> s = pre @ t @ suf
       \<and> (\<forall>c \<in> set pre. py_isspace c) \<and> (\<forall>c \<in> set suf. py_isspace c)
       \<and> (t \<noteq> [] \<longrightarrow> \<not> py_isspace (hd t) \<and> \<not> py_isspace (last t)))
   \<and> (\<not> is_str v \<longrightarrow> safe_strip v = v)
   \<and> format_url (PyStr (''//'' @ r)) = Inr (PyStr (''https://'' @ r))
   \<and> (startswith u ''http'' \<longrightarrow> format_url (PyStr u) = Inr (PyStr u))
   \<and> (\<not> truthy w \<longrightarrow> format_url w = Inr (PyStr ''''))"
proof -
  obtain pre suf where d: "s = pre @ strip s @ suf" "\<forall>c \<in> set pre. py_isspace c"
      "\<forall>c \<in> set suf. py_isspace c"
    using strip_decompose by blast
  have one: "\<exists>t pre suf. safe_strip (PyStr s) = PyStr t \<and> s = pre @ t @ suf
       \<and> (\<forall>c \<in> set pre. py_isspace c) \<and> (\<forall>c \<in> set suf. py_isspace c)
       \<and> (t \<noteq> [] \<longrightarrow> \<not> py_isspace (hd t) \<and> \<not> py_isspace (last t))"
    using d strip_no_leading strip_no_trailing
    by (intro exI [of _ "strip s"] exI [of _ pre] exI [of _ suf]) (simp add: safe_strip_def)
  have two: "\<not> is_str v \<longrightarrow> safe_strip v = v"
    by (cases v) (simp_all add: safe_strip_def)
  have three: "format_url (PyStr (''//'' @ r)) = Inr (PyStr (''https://'' @ r))"
    by (simp add: format_url_def startswith_def)
  have four: "startswith u ''http'' \<longrightarrow> format_url (PyStr u) = Inr (PyStr u)"
    by (auto simp: format_url_def startswith_def)
  have five: "\<not> truthy w \<longrightarrow> format_url w = Inr (PyStr '''')"
    by (simp add: format_url_def)
  from one two three four five show ?thesis by blast
qed

theorem normalization_helpers_witness:
  "safe_strip (PyStr ''  GG Marmont  '') = PyStr ''GG Marmont''
   \<and> safe_strip (PyInt 1200) = PyInt 1200
   \<and> format_url (PyStr ''//media.gucci.com/a.jpg'') = Inr (PyStr ''https://media.gucci.com/a.jpg'')
   \<and> format_url (PyStr ''http://x.test/a.jpg'') = Inr (PyStr ''http://x.test/a.jpg'')
   \<and> format_url PyNone = Inr (PyStr '''')"
proof -
  note h = normalization_helpers [of "''  GG Marmont  ''" "PyInt 1200" "''media.gucci.com/a.jpg''"
      "''http://x.test/a.jpg''" PyNone]
  have a: "safe_strip (PyStr ''  GG Marmont  '') = PyStr ''GG Marmont''"
    by (simp add: safe_strip_def strip_def py_isspace_def)
  have b: "safe_strip (PyInt 1200) = PyInt 1200" using h by simp
  have c: "format_url (PyStr ''//media.gucci.com/a.jpg'') = Inr (PyStr ''https://media.gucci.com/a.jpg'')"
    using h by simp
  have d: "format_url (PyStr ''http://x.test/a.jpg'') = Inr (PyStr ''http://x.test/a.jpg'')"
    using h by (simp add: startswith_def)
  have e: "format_url PyNone = Inr (PyStr '''')" using h by simp
  from a b c d e show ?thesis by blast
qed

section \<open>Properties of the output publisher and of \<open>run_parser\<close>\<close>

lemma finish_cases:
  "finish e self r = Some out \<Longrightarrow>
     (\<exists>log. out = aborted log) \<or> (\<exists>df log. out = publish e self df log)"
  by (auto simp: finish_def split: option.splits sum.splits prod.splits)

lemma dolce_gabbana_self_data:
  "dolce_gabbana_info_dicts fetch cats infos all_data [] log = Some (Inr (a, sd), log')
   \<Longrightarrow> sd = []"
proof (induction infos arbitrary: all_data log)
  case Nil
  then show ?case by simp
next
  case (Cons i infos)
  then show ?case
    by (auto split: option.splits sum.splits prod.splits if_splits)
qed

lemma process_categories_cases:
  "process_categories cls e site tokens jid bs = Some out \<Longrightarrow>
     (\<exists>log. out = aborted log) \<or> (\<exists>self df log. out = publish e self df log)"
proof (cases cls)
  case DolceGabbanaProductParser
  assume "process_categories cls e site tokens jid bs = Some out"
  with DolceGabbanaProductParser show ?thesis
    by (auto simp: dolce_gabbana_process_categories_def split: option.splits sum.splits prod.splits)
qed (auto simp: gucci_process_categories_def saint_laurent_process_categories_def
      loro_piana_process_categories_def alexander_mcqueen_process_categories_def
      loewe_process_categories_def stone_island_process_categories_def
      chloe_process_categories_def canada_goose_process_categories_def
      moncler_process_categories_def dest!: finish_cases)

lemma run_parser_cases:
  "run_parser e site tokens settings jid brand_id = Some out \<Longrightarrow>
     out = no_effects \<or> (\<exists>log. out = aborted log) \<or> (\<exists>self df log. out = publish e self df log)"
  by (auto simp: run_parser_def split: option.splits dest!: process_categories_cases)

lemma publish_fields:
  "fetches (publish e self df log) = log"
  "written (publish e self df log) =
     [(brand self @ ''_output_'' @ date_mdY e @ ''_'' @ code self @ ''.csv'', df)]"
  "uploads (publish e self df log) =
     [brand self @ ''_output_'' @ date_mdY e @ ''_'' @ code self @ ''.csv'', log_file_name self]"
  "notifications (publish e self df log) =
     [\<lparr>n_job_id = job_id self,
       n_resultUrl = py_str (upload_file_to_space e
          (brand self @ ''_output_'' @ date_mdY e @ ''_'' @ code self @ ''.csv'')),
       n_logUrl = py_str (upload_file_to_space e (log_file_name self)),
       n_count = int (length df) - 1\<rparr>]"
  "uncaught (publish e self df log) = False"
  by (simp_all add: publish_def send_output_def Let_def)

lemma gucci_two_pages_run:
  "run_parser example_env two_pages_site some_token (Some [''229'' \<mapsto> bags_settings]) ''J1'' ''229'' =
   Some (publish example_env (init_parser example_env ''J1'' ''gucci'') [0, 1, 2, 3, 4, 5]
     [page_request ''https://b.test'' ''bags'' en_US 0, page_request ''https://b.test'' ''bags'' en_US 0,
      page_request ''https://b.test'' ''bags'' en_US 1])"
  by (simp add: run_parser_def parsers_def gucci_process_categories_def bags_settings_def finish_def
      gucci_fetch_data_def two_pages_site_def driver_get_def page_request_def py_range_def
      except_empty_def upt_conv_Cons)

text \<open>
  Claim C6. Whenever a job posts a completion notification, its count is the number of
  rows of the file it serialised minus one; six rows are reported as five.
\<close>

theorem count_is_rows_minus_one:
  assumes "run_parser e site tokens settings jid brand_id = Some out"
  shows "\<forall>n \<in> set (notifications out).
           \<exists>name df. written out = [(name, df)] \<and> n_count n = int (length df) - 1"
proof -
  from run_parser_cases [OF assms] consider
      "out = no_effects" | log where "out = aborted log"
    | self df log where "out = publish e self df log"
    by blast
  then show ?thesis
  proof cases
    case 1
    then show ?thesis by (simp add: no_effects_def)
  next
    case 2
    then show ?thesis by (simp add: aborted_def)
  next
    case 3
    then show ?thesis by (simp add: publish_fields)
  qed
qed

theorem count_is_rows_minus_one_witness:
  "\<exists>out. run_parser example_env two_pages_site some_token (Some [''229'' \<mapsto> bags_settings]) ''J1'' ''229''
           = Some out
     \<and> map (length \<circ> snd) (written out) = [6]
     \<and> map n_count (notifications out) = [5]"
proof -
  let ?out = "publish example_env (init_parser example_env ''J1'' ''gucci'') [0, 1, 2, 3, 4, 5 :: int]
     [page_request ''https://b.test'' ''bags'' en_US 0, page_request ''https://b.test'' ''bags'' en_US 0,
      page_request ''https://b.test'' ''bags'' en_US 1]"
  note run = gucci_two_pages_run
  from count_is_rows_minus_one [OF run]
  have "\<forall>n \<in> set (notifications ?out).
           \<exists>name df. written ?out = [(name, df)] \<and> n_count n = int (length df) - 1" .
  then have "map n_count (notifications ?out) = [5]"
    by (simp add: publish_fields)
  moreover have "map (length \<circ> snd) (written ?out) = [6]" by (simp add: publish_fields)
  ultimately show ?thesis using run by (intro exI [of _ ?out]) simp
qed

text \<open>
  Claim C7. When the brand identifier is not in the registry of parsers, or the
  settings could not be fetched, or they have no entry for the brand, \<open>run_parser\<close>
  returns having made no request, written and uploaded no file and posted no
  notification.
\<close>

theorem unknown_brand_no_effects:
  assumes "parsers brand_id = None \<or> settings = None
           \<or> (\<exists>st. settings = Some st \<and> st brand_id = None)"
  shows "\<exists>out. run_parser e site tokens settings jid brand_id = Some out
           \<and> fetches out = [] \<and> written out = [] \<and> uploads out = []
           \<and> notifications out = [] \<and> \<not> uncaught out"
proof -
  have "run_parser e site tokens settings jid brand_id = Some no_effects"
    using assms by (auto simp: run_parser_def split: option.splits)
  then show ?thesis by (simp add: no_effects_def)
qed

theorem unknown_brand_no_effects_witness:
  "parsers ''999'' = None
   \<and> (\<exists>out. run_parser example_env two_pages_site some_token
               (Some [''999'' \<mapsto> bags_settings]) ''J1'' ''999'' = Some out
         \<and> fetches out = [] \<and> written out = [] \<and> uploads out = []
         \<and> notifications out = [] \<and> \<not> uncaught out)"
proof -
  have p: "parsers ''999'' = None" by (simp add: parsers_def)
  then have "parsers ''999'' = None \<or> Some [''999'' \<mapsto> bags_settings] = None
           \<or> (\<exists>st. Some [''999'' \<mapsto> bags_settings] = Some st \<and> st ''999'' = None)"
    by simp
  from unknown_brand_no_effects [OF this, of example_env two_pages_site some_token "''J1''"] p
  show ?thesis by simp
qed

text \<open>
  Claim C10. \<open>send_output\<close> posts exactly one completion notification, whatever the
  uploads did; when the upload of the result file or of the log failed, the field
  \<open>resultUrl\<close> or \<open>logUrl\<close> of the notification is the four-character string
  \<open>None\<close>.
\<close>

theorem one_notification_with_None_urls:
  "(\<exists>n. notifications (send_output e self out) = notifications out @ [n]
        \<and> (upload_url self = None \<longrightarrow> n_resultUrl n = ''None'')
        \<and> (s3 e (log_file_name self) \<noteq> Uploaded \<longrightarrow> n_logUrl n = ''None''))
   \<and> (\<exists>name n. written (publish e self df log) = [(name, df)]
        \<and> notifications (publish e self df log) = [n]
        \<and> (s3 e name \<noteq> Uploaded \<longrightarrow> n_resultUrl n = ''None'')
        \<and> (s3 e (log_file_name self) \<noteq> Uploaded \<longrightarrow> n_logUrl n = ''None''))
   \<and> length ''None'' = 4"
proof -
  have up: "\<And>f. s3 e f \<noteq> Uploaded \<Longrightarrow> upload_file_to_space e f = None"
    by (simp add: upload_file_to_space_def split: s3_result.splits)
  have a: "\<exists>n. notifications (send_output e self out) = notifications out @ [n]
        \<and> (upload_url self = None \<longrightarrow> n_resultUrl n = ''None'')
        \<and> (s3 e (log_file_name self) \<noteq> Uploaded \<longrightarrow> n_logUrl n = ''None'')"
    using up by (simp add: send_output_def Let_def py_str_def)
  have b: "\<exists>name n. written (publish e self df log) = [(name, df)]
        \<and> notifications (publish e self df log) = [n]
        \<and> (s3 e name \<noteq> Uploaded \<longrightarrow> n_resultUrl n = ''None'')
        \<and> (s3 e (log_file_name self) \<noteq> Uploaded \<longrightarrow> n_logUrl n = ''None'')"
    using up by (simp add: publish_fields py_str_def)
  from a b show ?thesis by simp
qed

theorem one_notification_with_None_urls_witness:
  "\<exists>n. notifications (publish offline_env (init_parser offline_env ''J1'' ''gucci'') [1, 2 :: int] []) = [n]
      \<and> n_resultUrl n = ''None'' \<and> n_logUrl n = ''None''"
proof -
  let ?self = "init_parser offline_env ''J1'' ''gucci''"
  have s: "\<And>f. s3 offline_env f \<noteq> Uploaded" by (simp add: offline_env_def)
  from one_notification_with_None_urls [of offline_env ?self "no_effects :: int outcome" "[1, 2]" "[]"]
  obtain name n where n: "notifications (publish offline_env ?self [1, 2 :: int] []) = [n]"
      "s3 offline_env name \<noteq> Uploaded \<longrightarrow> n_resultUrl n = ''None''"
      "s3 offline_env (log_file_name ?self) \<noteq> Uploaded \<longrightarrow> n_logUrl n = ''None''"
    by blast
  with s show ?thesis by simp
qed

section \<open>Dolce \<open>&\<close> Gabbana publishes the frame it never fills\<close>

lemma dolce_gabbana_example_frames:
  "dolce_gabbana_info_dicts (\<lambda>i c. dolce_gabbana_fetch_products two_pages_site some_token ''https://b.test'' c i)
      [''bags''] [en_US] [] [] [] =
   Some (Inr ([0, 1, 2], []), [offset_request ''https://b.test'' ''bags'' en_US 0 2])"
  by (simp add: dolce_gabbana_fetch_products_def some_token_def no_token_def dolce_gabbana_pages.simps
      two_pages_site_def offset_request_def en_US_def)

text \<open>
  Claim C9. For brand 157 every job that reaches the publisher serialises the
  instance frame, which is empty whatever was fetched into \<open>all_data\<close>: the file has no
  rows and the notification reports \<open>-1\<close>.
\<close>

theorem dolce_gabbana_publishes_nothing:
  assumes "run_parser e site tokens (Some st) jid ''157'' = Some out"
    and "st ''157'' = Some bs" and "\<not> uncaught out"
  shows "\<exists>name n. written out = [(name, [])] \<and> notifications out = [n] \<and> n_count n = - 1"
proof -
  have p: "parsers ''157'' = Some DolceGabbanaProductParser" by (simp add: parsers_def)
  from assms(1,2) p have run:
    "dolce_gabbana_process_categories e site tokens (init_parser e jid ''dolce_gabbana'')
       (Base_URL bs) (Categories bs) (Locales bs) = Some out"
    by (simp add: run_parser_def)
  then obtain all_data self_data log where
    loop: "dolce_gabbana_info_dicts
             (\<lambda>i c. dolce_gabbana_fetch_products site tokens (Base_URL bs) c i)
             (Categories bs) (Locales bs) [] [] [] = Some (Inr (all_data, self_data), log)"
    and out: "out = publish e (init_parser e jid ''dolce_gabbana'') self_data log"
    using assms(3)
    by (auto simp: dolce_gabbana_process_categories_def aborted_def
        split: option.splits sum.splits prod.splits)
  from dolce_gabbana_self_data [OF loop] have "self_data = []" .
  with out show ?thesis by (simp add: publish_fields)
qed

theorem dolce_gabbana_publishes_nothing_witness:
  "\<exists>out. run_parser example_env two_pages_site some_token (Some [''157'' \<mapsto> bags_settings]) ''J2'' ''157''
            = Some out
     \<and> map snd (written out) = [[]] \<and> map n_count (notifications out) = [- 1]
     \<and> length (fetches out) = 1"
proof -
  let ?out = "publish example_env (init_parser example_env ''J2'' ''dolce_gabbana'') ([] :: int list)
     [offset_request ''https://b.test'' ''bags'' en_US 0 2]"
  have run: "run_parser example_env two_pages_site some_token (Some [''157'' \<mapsto> bags_settings]) ''J2'' ''157''
      = Some ?out"
    using dolce_gabbana_example_frames
    by (simp add: run_parser_def parsers_def dolce_gabbana_process_categories_def bags_settings_def)
  have st: "[''157'' \<mapsto> bags_settings] ''157'' = Some bags_settings" by simp
  have nu: "\<not> uncaught ?out" by (simp add: publish_fields)
  from dolce_gabbana_publishes_nothing [OF run st nu]
  obtain name n where "written ?out = [(name, [])]" "notifications ?out = [n]" "n_count n = - 1"
    by auto
  then have "map snd (written ?out) = [[]] \<and> map n_count (notifications ?out) = [- 1]
     \<and> length (fetches ?out) = 1"
    by (simp add: publish_fields)
  with run show ?thesis by (intro exI [of _ ?out]) simp
qed

section \<open>Properties of the retries\<close>




text \<open>A source that never gives a status of the list is seen by the session as it is.\<close>

lemma retrying_unretried:
  assumes "\<forall>log rq. \<not> retried r (server log rq)"
  shows "retrying r server = server"
proof -
  have "\<And>log rq. attempts r server log rq (retry_total r) 0 = (server log rq, Suc 0)"
    using assms by (cases "retry_total r") simp_all
  then show ?thesis by (simp add: retrying_def)
qed

section \<open>Rows of earlier locales\<close>

text \<open>
  With the reset at each locale, what is left after the loops is what the last locale's
  categories gave, starting from the empty frame.
\<close>

lemma for_locales_fresh_last:
  "for_locales True fetch cs (ls @ [l]) df log = Some (Inr df', log') \<Longrightarrow>
     \<exists>log0. for_categories (fetch l) cs [] log0 = Some (Inr df', log')"
proof (induction ls arbitrary: df log)
  case Nil
  then show ?case by (auto split: option.splits sum.splits prod.splits)
next
  case (Cons a ls)
  then show ?case by (auto split: option.splits sum.splits prod.splits)
qed

text \<open>
  Claim C1 fails for Gucci: with the locales \<open>en-US\<close> and \<open>it-IT\<close>, the row fetched for
  \<open>en-US\<close> is not in the file that is published. Loro Piana, whose loop does not reset
  the frame, publishes both rows for the same job.
\<close>

theorem gucci_discards_earlier_locales:
  "(\<exists>out. run_parser example_env locale_site some_token (Some [''229'' \<mapsto> two_locales_settings]) ''J1'' ''229''
            = Some out
      \<and> map snd (written out) = [[2]] \<and> map n_count (notifications out) = [0]
      \<and> length (fetches out) = 4)
   \<and> (\<exists>out. run_parser example_env locale_site some_token (Some [''314'' \<mapsto> two_locales_settings]) ''J1'' ''314''
            = Some out
      \<and> map snd (written out) = [[1, 2]])"
proof -
  have a: "run_parser example_env locale_site some_token (Some [''229'' \<mapsto> two_locales_settings]) ''J1'' ''229''
      = Some (publish example_env (init_parser example_env ''J1'' ''gucci'') [2]
          [page_request ''https://b.test'' ''bags'' en_US 0, page_request ''https://b.test'' ''bags'' en_US 0,
           page_request ''https://b.test'' ''bags'' it_IT 0, page_request ''https://b.test'' ''bags'' it_IT 0])"
    by (simp add: run_parser_def parsers_def gucci_process_categories_def two_locales_settings_def
        finish_def gucci_fetch_data_def locale_site_def driver_get_def page_request_def py_range_def
        except_empty_def en_US_def it_IT_def)
  have s: "retrying loro_piana_retries locale_site = locale_site"
    by (rule retrying_unretried) (simp add: locale_site_def retried_def loro_piana_retries_def)
  have b: "run_parser example_env locale_site some_token (Some [''314'' \<mapsto> two_locales_settings]) ''J1'' ''314''
      = Some (publish example_env (init_parser example_env ''J1'' ''loro_piana'') [1, 2]
          [page_request ''https://b.test'' ''bags'' en_US 0, page_request ''https://b.test'' ''bags'' en_US 0,
           page_request ''https://b.test'' ''bags'' it_IT 0, page_request ''https://b.test'' ''bags'' it_IT 0])"
    by (simp add: run_parser_def parsers_def loro_piana_process_categories_def two_locales_settings_def s)
      (simp add: finish_def loro_piana_fetch_data_def locale_site_def session_get_def page_request_def
        py_range_def except_empty_def en_US_def it_IT_def)
  show ?thesis
    by (intro conjI exI [of _ "publish example_env (init_parser example_env ''J1'' ''gucci'') [2]
          [page_request ''https://b.test'' ''bags'' en_US 0, page_request ''https://b.test'' ''bags'' en_US 0,
           page_request ''https://b.test'' ''bags'' it_IT 0, page_request ''https://b.test'' ''bags'' it_IT 0]"]
        exI [of _ "publish example_env (init_parser example_env ''J1'' ''loro_piana'') [1, 2]
          [page_request ''https://b.test'' ''bags'' en_US 0, page_request ''https://b.test'' ''bags'' en_US 0,
           page_request ''https://b.test'' ''bags'' it_IT 0, page_request ''https://b.test'' ''bags'' it_IT 0]"])
      (simp_all add: a b publish_fields)
qed

section \<open>Containment of fetch failures\<close>

lemma except_empty_contained: "\<exists>rows log'. except_empty r = Some (Inr rows, log')"
  by (cases r) (auto simp: except_empty_def split: sum.splits)

lemma gucci_fetch_data_contained:
  "\<exists>rows log'. gucci_fetch_data site c url l log = Some (Inr rows, log')"
  by (simp add: gucci_fetch_data_def except_empty_contained split: option.splits total.splits)

lemma gucci_fetch_data_failure:
  "site log (page_request url c l 0) = Raises \<Longrightarrow>
     gucci_fetch_data site c url l log = Some (Inr [], log @ [page_request url c l 0])"
  by (simp add: gucci_fetch_data_def driver_get_def)

lemma for_categories_contained:
  assumes "\<And>c log. \<exists>rows log'. fetch c log = Some (Inr rows, log')"
  shows "\<exists>df' log'. for_categories fetch cs df log = Some (Inr df', log')"
proof (induction cs arbitrary: df log)
  case Nil
  then show ?case by simp
next
  case (Cons c cs)
  from assms obtain rows log1 where "fetch c log = Some (Inr rows, log1)" by blast
  with Cons show ?case by simp
qed

lemma for_locales_contained:
  assumes "\<And>l c log. \<exists>rows log'. fetch l c log = Some (Inr rows, log')"
  shows "\<exists>df' log'. for_locales fresh fetch cs ls df log = Some (Inr df', log')"
proof (induction ls arbitrary: df log)
  case Nil
  then show ?case by simp
next
  case (Cons l ls)
  from for_categories_contained [of "fetch l"] assms
  obtain d1 log1 where "for_categories (fetch l) cs (if fresh then [] else df) log = Some (Inr d1, log1)"
    by blast
  with Cons show ?case by simp
qed

lemma gucci_always_publishes:
  "\<exists>df log. gucci_process_categories e site self url categories locales = Some (publish e self df log)"
proof -
  from for_locales_contained [of "\<lambda>l c. gucci_fetch_data site c url l"] gucci_fetch_data_contained
  obtain df log where
    "for_locales True (\<lambda>l c. gucci_fetch_data site c url l) categories locales [] [] = Some (Inr df, log)"
    by blast
  then show ?thesis by (auto simp: gucci_process_categories_def finish_def)
qed

lemma dolce_gabbana_no_token:
  "tokens log = TokenValue None \<Longrightarrow>
     dolce_gabbana_fetch_products site tokens url c info_dict log = Some (Inr [], log)"
  by (simp add: dolce_gabbana_fetch_products_def no_token_def)

text \<open>
  Claim C5 fails for Moncler, whose \<open>fetch_moncler_products\<close> has no exception
  handler: when the answer for the first category cannot be decoded, the exception
  leaves the job after that one request; the second category is never requested and
  nothing is published. Gucci, given the same job, returns the empty frame for the first
  category, fetches the second and publishes its row.
\<close>

theorem moncler_failure_aborts_job:
  "run_parser example_env broken_bags_site some_token (Some [''363'' \<mapsto> two_categories_settings]) ''J1'' ''363''
     = Some (aborted [page_request ''https://b.test'' ''bags'' en_US 0])
   \<and> written (aborted [page_request ''https://b.test'' ''bags'' en_US 0] :: int outcome) = []
   \<and> notifications (aborted [page_request ''https://b.test'' ''bags'' en_US 0] :: int outcome) = []
   \<and> run_parser example_env broken_bags_site some_token (Some [''229'' \<mapsto> two_categories_settings]) ''J1'' ''229''
     = Some (publish example_env (init_parser example_env ''J1'' ''gucci'') [7]
          [page_request ''https://b.test'' ''bags'' en_US 0, page_request ''https://b.test'' ''shoes'' en_US 0,
           page_request ''https://b.test'' ''shoes'' en_US 0])"
proof -
  have a: "run_parser example_env broken_bags_site some_token (Some [''363'' \<mapsto> two_categories_settings]) ''J1'' ''363''
     = Some (aborted [page_request ''https://b.test'' ''bags'' en_US 0])"
    by (simp add: run_parser_def parsers_def moncler_process_categories_def fetch_moncler_products_def
        two_categories_settings_def finish_def moncler_pages.simps broken_bags_site_def driver_get_def
        page_request_def)
  have b: "run_parser example_env broken_bags_site some_token (Some [''229'' \<mapsto> two_categories_settings]) ''J1'' ''229''
     = Some (publish example_env (init_parser example_env ''J1'' ''gucci'') [7]
          [page_request ''https://b.test'' ''bags'' en_US 0, page_request ''https://b.test'' ''shoes'' en_US 0,
           page_request ''https://b.test'' ''shoes'' en_US 0])"
    by (simp add: run_parser_def parsers_def gucci_process_categories_def two_categories_settings_def
        finish_def gucci_fetch_data_def broken_bags_site_def driver_get_def page_request_def py_range_def
        except_empty_def)
  from a b show ?thesis by (simp add: aborted_def)
qed

section \<open>Known page count\<close>

lemma for_pages_all_ok:
  "\<forall>log' rq'. get log' rq' \<noteq> None \<Longrightarrow>
     \<exists>rows. for_pages get rq pages acc log = (Inr rows, log @ map rq pages)"
proof (induction pages arbitrary: acc log)
  case Nil
  then show ?case by simp
next
  case (Cons p pages)
  from Cons.prems have "get log (rq p) \<noteq> None" by blast
  then obtain t items where g: "get log (rq p) = Some (t, items)"
    by (cases "get log (rq p)") auto
  from Cons.IH [OF Cons.prems, of "acc @ items" "log @ [rq p]"] g
  show ?case by simp
qed

lemma driver_get_ok: "\<forall>log rq. site log rq \<noteq> Raises \<Longrightarrow> \<forall>log rq. driver_get site log rq \<noteq> None"
  by (auto simp: driver_get_def split: response.splits)

text \<open>
  Claim C2 as stated: a first response declaring \<open>N\<close> pages is followed by exactly the
  requests for the pages \<open>0\<close> to \<open>N - 1\<close>. It fails: the first response is itself the
  answer to a request for page 0, which the loop then repeats.
\<close>

theorem known_page_count_counterexample:
  "\<not> (\<forall>(site :: int site) c url l s N items.
        site [] (page_request url c l 0) = Http s (Total N) items \<longrightarrow>
        (\<exists>rows. gucci_fetch_data site c url l [] =
           Some (Inr rows, map (page_request url c l) (py_range N))))"
proof
  assume "\<forall>(site :: int site) c url l s N items.
        site [] (page_request url c l 0) = Http s (Total N) items \<longrightarrow>
        (\<exists>rows. gucci_fetch_data site c url l [] =
           Some (Inr rows, map (page_request url c l) (py_range N)))"
  moreover have "two_pages_site [] (page_request ''u'' ''bags'' en_US 0) = Http 200 (Total 2) [0, 1, 2]"
    by (simp add: two_pages_site_def page_request_def)
  ultimately obtain rows where
    "gucci_fetch_data two_pages_site ''bags'' ''u'' en_US [] =
       Some (Inr rows, map (page_request ''u'' ''bags'' en_US) (py_range 2))"
    by blast
  moreover have "gucci_fetch_data two_pages_site ''bags'' ''u'' en_US [] =
     Some (Inr [0, 1, 2, 3, 4, 5],
       [page_request ''u'' ''bags'' en_US 0, page_request ''u'' ''bags'' en_US 0,
        page_request ''u'' ''bags'' en_US 1])"
    by (simp add: gucci_fetch_data_def two_pages_site_def driver_get_def page_request_def py_range_def
        except_empty_def upt_conv_Cons)
  ultimately show False by (simp add: py_range_def upt_conv_Cons)
qed

text \<open>
  Claim C2 as amended. When the first response (to a request for page 0) declares \<open>N\<close>
  pages and no retrieval raises, Gucci's \<open>fetch_data\<close> makes that first request and then
  the requests for the pages \<open>0\<close> to \<open>N - 1\<close> in increasing order, \<open>N + 1\<close> requests in
  all for \<open>N \<ge> 0\<close>; Alexander McQueen's, which adds one to the declared \<open>nbPages\<close>, makes
  the first request and then those for the pages \<open>0\<close> to \<open>N\<close>.
\<close>

theorem known_page_count_fetches:
  "(site log (page_request url c l 0) = Http s (Total N) items \<and> (\<forall>log' rq. site log' rq \<noteq> Raises) \<longrightarrow>
      (\<exists>rows. gucci_fetch_data site c url l log =
         Some (Inr rows, log @ page_request url c l 0 # map (page_request url c l) (py_range N)))
      \<and> length (page_request url c l 0 # map (page_request url c l) (py_range N)) = nat N + 1
      \<and> map rq_page (map (page_request url c l) (py_range N)) = map int [0..<nat N])
   \<and> (site log (page_request url c l 0) = Http s (Total N) items
        \<and> (\<forall>log' rq. session_get site log' rq \<noteq> None) \<longrightarrow>
      (\<exists>rows. alexander_mcqueen_fetch_data site c url l log =
         Some (Inr rows, log @ page_request url c l 0 # map (page_request url c l) (py_range (N + 1)))))"
proof (intro conjI impI)
  assume h: "site log (page_request url c l 0) = Http s (Total N) items \<and> (\<forall>log' rq. site log' rq \<noteq> Raises)"
  then have ok: "\<forall>log rq. driver_get site log rq \<noteq> None" by (simp add: driver_get_ok)
  from for_pages_all_ok [OF ok]
  obtain rows where "for_pages (driver_get site) (page_request url c l) (py_range N) []
      (log @ [page_request url c l 0]) =
      (Inr rows, (log @ [page_request url c l 0]) @ map (page_request url c l) (py_range N))"
    by blast
  with h show "\<exists>rows. gucci_fetch_data site c url l log =
         Some (Inr rows, log @ page_request url c l 0 # map (page_request url c l) (py_range N))"
    by (simp add: gucci_fetch_data_def driver_get_def except_empty_def)
next
  show "length (page_request url c l 0 # map (page_request url c l) (py_range N)) = nat N + 1"
    by (simp add: py_range_def)
next
  show "map rq_page (map (page_request url c l) (py_range N)) = map int [0..<nat N]"
    by (simp add: py_range_def page_request_def comp_def)
next
  assume h: "site log (page_request url c l 0) = Http s (Total N) items
        \<and> (\<forall>log' rq. session_get site log' rq \<noteq> None)"
  then have ok: "\<forall>log rq. session_get site log rq \<noteq> None" by simp
  from h have "session_get site log (page_request url c l 0) \<noteq> None" by blast
  moreover from h have "site log (page_request url c l 0) = Http s (Total N) items" by simp
  ultimately have first: "session_get site log (page_request url c l 0) = Some (Total N, items)"
    by (simp add: session_get_def split: if_splits)
  from for_pages_all_ok [OF ok]
  obtain rows where "for_pages (session_get site) (page_request url c l) (py_range (N + 1)) []
      (log @ [page_request url c l 0]) =
      (Inr rows, (log @ [page_request url c l 0]) @ map (page_request url c l) (py_range (N + 1)))"
    by blast
  with first show "\<exists>rows. alexander_mcqueen_fetch_data site c url l log =
         Some (Inr rows, log @ page_request url c l 0 # map (page_request url c l) (py_range (N + 1)))"
    by (simp add: alexander_mcqueen_fetch_data_def except_empty_def)
qed

theorem known_page_count_fetches_witness:
  "map rq_page (snd (the (gucci_fetch_data two_pages_site ''bags'' ''u'' en_US []))) = [0, 0, 1]
   \<and> map rq_page (snd (the (alexander_mcqueen_fetch_data two_pages_site ''bags'' ''u'' en_US []))) = [0, 0, 1, 2]"
proof -
  have first: "two_pages_site [] (page_request ''u'' ''bags'' en_US 0) = Http 200 (Total 2) [0, 1, 2]"
    by (simp add: two_pages_site_def page_request_def)
  have ok: "\<forall>log' rq. two_pages_site log' rq \<noteq> Raises" by (simp add: two_pages_site_def)
  have ok': "\<forall>log' rq. session_get two_pages_site log' rq \<noteq> None"
    by (simp add: two_pages_site_def session_get_def)
  note t = known_page_count_fetches [of two_pages_site "[]" "''u''" "''bags''" en_US 200 2 "[0, 1, 2]"]
  from t first ok obtain rows where
    "gucci_fetch_data two_pages_site ''bags'' ''u'' en_US [] =
       Some (Inr rows, [] @ page_request ''u'' ''bags'' en_US 0 # map (page_request ''u'' ''bags'' en_US) (py_range 2))"
    by blast
  then have a: "map rq_page (snd (the (gucci_fetch_data two_pages_site ''bags'' ''u'' en_US []))) = [0, 0, 1]"
    by (simp add: py_range_def upt_conv_Cons page_request_def)
  from t first ok' obtain rows' where
    "alexander_mcqueen_fetch_data two_pages_site ''bags'' ''u'' en_US [] =
       Some (Inr rows', [] @ page_request ''u'' ''bags'' en_US 0 # map (page_request ''u'' ''bags'' en_US) (py_range (2 + 1)))"
    by blast
  then have b: "map rq_page (snd (the (alexander_mcqueen_fetch_data two_pages_site ''bags'' ''u'' en_US []))) = [0, 0, 1, 2]"
    by (simp add: py_range_def upt_conv_Cons page_request_def)
  from a b show ?thesis by simp
qed

section \<open>Zero or unparsable totals and the end of the loops\<close>

lemma loewe_pages_never_returns:
  assumes r: "loewe_pages site url c cd total_products offset all_products log = Some y"
  shows "\<not> ((\<forall>log rq. \<exists>t. session_get site log rq = Some (t, [])) \<and> offset \<le> total_products)"
proof (rule loewe_pages.raw_induct [OF _ r, where P = "\<lambda>site url c cd total_products offset all_products log y.
    \<not> ((\<forall>log rq. \<exists>t. session_get site log rq = Some (t, [])) \<and> offset \<le> total_products)"])
  fix f site url c cd total_products offset all_products log y
  assume IH: "\<And>site url c cd total_products offset all_products log y.
        f site url c cd total_products offset all_products log = Some y \<Longrightarrow>
        \<not> ((\<forall>log rq. \<exists>t. session_get site log rq = Some (t, [])) \<and> offset \<le> total_products)"
    and body: "(if offset \<le> total_products
      then case session_get site log (offset_request url c cd offset (limit cd)) of
           None \<Rightarrow> Some (Inl OtherError, log @ [offset_request url c cd offset (limit cd)])
           | Some (t, items) \<Rightarrow>
               if items = []
               then f site url c cd total_products offset all_products
                     (log @ [offset_request url c cd offset (limit cd)])
               else f site url c cd total_products (offset + limit cd) (all_products @ items)
                     (log @ [offset_request url c cd offset (limit cd)])
      else Some (Inr all_products, log)) = Some y"
  show "\<not> ((\<forall>log rq. \<exists>t. session_get site log rq = Some (t, [])) \<and> offset \<le> total_products)"
  proof
    assume h: "(\<forall>log rq. \<exists>t. session_get site log rq = Some (t, [])) \<and> offset \<le> total_products"
    then obtain t where "session_get site log (offset_request url c cd offset (limit cd)) = Some (t, [])"
      by blast
    with h body have "f site url c cd total_products offset all_products
                     (log @ [offset_request url c cd offset (limit cd)]) = Some y"
      by simp
    from IH [OF this] h show False by blast
  qed
qed

lemma loewe_pages_diverges:
  assumes "\<forall>log rq. \<exists>t. session_get site log rq = Some (t, [])" and "offset \<le> total_products"
  shows "loewe_pages site url c cd total_products offset all_products log = None"
proof (cases "loewe_pages site url c cd total_products offset all_products log")
  case None
  then show ?thesis .
next
  case (Some y)
  from loewe_pages_never_returns [OF Some] assms show ?thesis by blast
qed

text \<open>
  Gucci: a first response that declares zero pages, or a total that is not a number, or
  that cannot be decoded, is followed by no further request.
\<close>

lemma gucci_zero_or_unparsable_total:
  assumes "site log (page_request url c l 0) = Http s (Total 0) items
           \<or> site log (page_request url c l 0) = Http s BadTotal items
           \<or> site log (page_request url c l 0) = Raises"
  shows "gucci_fetch_data site c url l log = Some (Inr [], log @ [page_request url c l 0])"
  using assms by (auto simp: gucci_fetch_data_def driver_get_def py_range_def except_empty_def)

text \<open>
  Claim C3 fails for Loewe. When every response holds no items, the first one gives
  \<open>total_products = 0\<close>; the loop \<open>while offset <= total_products\<close> is entered with
  \<open>offset = 0\<close>, finds no items and goes on (\<open>continue\<close>) without advancing the offset:
  \<open>fetch_data\<close> never returns, and neither does the job. Stone Island, whose loop has
  the same \<open>\<le>\<close>, makes one further request when the count is zero.
\<close>

theorem loewe_zero_total_never_returns:
  "loewe_fetch_data empty_site some_token ''bags'' ''https://b.test'' en_US [] = None
   \<and> run_parser example_env empty_site some_token (Some [''310'' \<mapsto> bags_settings]) ''J1'' ''310'' = None
   \<and> stone_island_fetch_data zero_total_site ''bags'' ''https://b.test'' en_US [] =
       Some (Inr [], [offset_request ''https://b.test'' ''bags'' en_US 0 2,
                      offset_request ''https://b.test'' ''bags'' en_US 0 2])"
proof -
  have e: "\<forall>log rq. \<exists>t. session_get empty_site log rq = Some (t, [])"
    by (simp add: session_get_def empty_site_def)
  have loop: "\<And>log. loewe_pages empty_site ''https://b.test'' ''bags'' en_US 0 0 [] log = None"
    by (rule loewe_pages_diverges [OF e]) simp
  have a: "loewe_fetch_data empty_site some_token ''bags'' ''https://b.test'' en_US [] = None"
    by (simp add: loewe_fetch_data_def some_token_def no_token_def session_get_def empty_site_def
        loop [unfolded empty_site_def])
  have s: "retrying loewe_retries empty_site = empty_site"
    by (rule retrying_unretried) (simp add: empty_site_def retried_def loewe_retries_def)
  have b: "run_parser example_env empty_site some_token (Some [''310'' \<mapsto> bags_settings]) ''J1'' ''310'' = None"
    using a
    by (simp add: run_parser_def parsers_def loewe_process_categories_def bags_settings_def finish_def s)
  have c: "stone_island_fetch_data zero_total_site ''bags'' ''https://b.test'' en_US [] =
       Some (Inr [], [offset_request ''https://b.test'' ''bags'' en_US 0 2,
                      offset_request ''https://b.test'' ''bags'' en_US 0 2])"
    by (simp add: stone_island_fetch_data_def stone_island_pages.simps session_get_def zero_total_site_def
        en_US_def except_empty_def offset_request_def)
  from a b c show ?thesis by simp
qed

section \<open>Retries\<close>






end
